theory Spec2Isabelle
  imports Complex_Main
begin

section \<open>Python values\<close>

text \<open>
  The offer payload and the search filter are \<^verbatim>\<open>Dict[str, Any]\<close> values that come out of
  \<^verbatim>\<open>json.loads\<close>, so a field may hold any JSON value.  A Python \<^verbatim>\<open>str\<close> is a list of
  code points; the model covers the code points below 256 (\<^typ>\<open>char\<close>).

  A Python \<^verbatim>\<open>float\<close> is represented by a number: \<open>Fin q\<close> stands for the double nearest to
  the rational \<open>q\<close>, next to the two infinities and NaN.  The range of the doubles is
  modelled (a conversion that leaves it overflows); the rounding to the nearest double
  is not carried out, so \<^verbatim>\<open>float()\<close> of a whole number or of a decimal text keeps the exact
  number where CPython rounds it, and two numbers that round to the same double stay
  apart.  No statement below rests on the difference.
\<close>

datatype pyfloat = Fin rat | PosInf | NegInf | NaN

datatype pyval =
    PNone
  | PBool bool
  | PInt int
  | PFloat pyfloat
  | PStr string
  | PList "pyval list"
  | PDict "(string \<times> pyval) list"

text \<open>
  The exceptions that the modelled code can raise.  \<open>RuntimeError\<close> is the wrapper raised by
  \<^verbatim>\<open>OfferInterpreter.interpret\<close>; it carries its cause.  \<open>BindError\<close> is the error of the sqlite3
  module for a parameter of an unsupported type; \<open>StorageFault\<close> is an error of the storage
  engine itself (the table is full).  \<open>ExternalCallError\<close> is a failure of the call to the
  external text-understanding service.
\<close>

datatype pyerror =
    TypeError
  | ValueError
  | OverflowError
  | AttributeError
  | BindError
  | StorageFault
  | JSONDecodeError
  | ExternalCallError
  | RuntimeError pyerror

text \<open>Truth value testing, as in \<^verbatim>\<open>if country:\<close>.\<close>

fun py_truthy :: "pyval \<Rightarrow> bool" where
  "py_truthy PNone = False"
| "py_truthy (PBool b) = b"
| "py_truthy (PInt n) = (n \<noteq> 0)"
| "py_truthy (PFloat f) = (f \<noteq> Fin 0)"
| "py_truthy (PStr s) = (s \<noteq> [])"
| "py_truthy (PList xs) = (xs \<noteq> [])"
| "py_truthy (PDict kvs) = (kvs \<noteq> [])"

text \<open>\<^verbatim>\<open>d.get(key)\<close>: the value, or \<^verbatim>\<open>None\<close> for a missing key.\<close>

definition dict_get :: "(string \<times> pyval) list \<Rightarrow> string \<Rightarrow> pyval" where
  "dict_get d k = (case map_of d k of None \<Rightarrow> PNone | Some v \<Rightarrow> v)"

text \<open>\<^verbatim>\<open>x.get(key)\<close> on any value: only a dict has the method.\<close>

fun py_get :: "pyval \<Rightarrow> string \<Rightarrow> pyerror + pyval" where
  "py_get (PDict d) k = Inr (dict_get d k)"
| "py_get _ k = Inl AttributeError"

text \<open>\<^verbatim>\<open>x or {}\<close>.\<close>

definition or_empty_dict :: "pyval \<Rightarrow> pyval" where
  "or_empty_dict v = (if py_truthy v then v else PDict [])"

section \<open>Text of numbers\<close>

definition is_digit :: "char \<Rightarrow> bool" where
  "is_digit c = (48 \<le> (of_char c :: nat) \<and> (of_char c :: nat) \<le> 57)"

definition digit_val :: "char \<Rightarrow> nat" where
  "digit_val c = of_char c - 48"

text \<open>
  White space that \<^verbatim>\<open>float()\<close> and \<^verbatim>\<open>int()\<close> strip from both ends: tab to carriage return
  and the blank, and above ASCII the code points for which \<^verbatim>\<open>str.isspace\<close> holds, which
  below 256 are 133 and 160.
\<close>

definition is_space :: "char \<Rightarrow> bool" where
  "is_space c = (let n = (of_char c :: nat) in
     (9 \<le> n \<and> n \<le> 13) \<or> n = 32 \<or> n = 133 \<or> n = 160)"

definition strip :: "string \<Rightarrow> string" where
  "strip s = rev (dropWhile is_space (rev (dropWhile is_space s)))"

text \<open>
  \<open>digitpart ::= digit (["_"] digit)*\<close>: the digits read, and the rest of the text.
  \<open>digits_tail\<close> reads what follows the first digit.
\<close>

fun digits_tail :: "string \<Rightarrow> nat list \<times> string" where
  "digits_tail [] = ([], [])"
| "digits_tail [c] = (if is_digit c then ([digit_val c], []) else ([], [c]))"
| "digits_tail (c # d # cs) =
     (if is_digit c then (case digits_tail (d # cs) of (ds, r) \<Rightarrow> (digit_val c # ds, r))
      else if c = CHR ''_'' \<and> is_digit d
        then (case digits_tail cs of (ds, r) \<Rightarrow> (digit_val d # ds, r))
      else ([], c # d # cs))"

fun digitpart :: "string \<Rightarrow> (nat list \<times> string) option" where
  "digitpart [] = None"
| "digitpart (c # cs) =
     (if is_digit c then (case digits_tail cs of (ds, r) \<Rightarrow> Some (digit_val c # ds, r))
      else None)"

definition digits_value :: "nat list \<Rightarrow> nat" where
  "digits_value ds = foldl (\<lambda>acc d. 10 * acc + d) 0 ds"

text \<open>An optional sign: the sign read (\<open>True\<close> for minus) and the rest.\<close>

fun read_sign :: "string \<Rightarrow> bool \<times> string" where
  "read_sign [] = (False, [])"
| "read_sign (c # cs) =
     (if c = CHR ''-'' then (True, cs) else if c = CHR ''+'' then (False, cs)
      else (False, c # cs))"

text \<open>Lower case of the ASCII letters only.\<close>

definition ascii_lower_char :: "char \<Rightarrow> char" where
  "ascii_lower_char c =
     (if 65 \<le> (of_char c :: nat) \<and> (of_char c :: nat) \<le> 90
      then char_of ((of_char c :: nat) + 32) else c)"

section \<open>The built-in conversions \<^verbatim>\<open>float()\<close> and \<^verbatim>\<open>int()\<close>\<close>

text \<open>
  A number at least \<open>2^1024 - 2^970\<close> in absolute value rounds to no finite double: from a
  string it becomes an infinity, from an \<^verbatim>\<open>int\<close> it raises \<^verbatim>\<open>OverflowError\<close>.
\<close>

definition dbl_overflow :: rat where
  "dbl_overflow = 2 ^ 1024 - 2 ^ 970"

definition float_of_rat :: "rat \<Rightarrow> pyfloat" where
  "float_of_rat q =
     (if dbl_overflow \<le> q then PosInf else if q \<le> - dbl_overflow then NegInf else Fin q)"

definition scale10 :: "rat \<Rightarrow> int \<Rightarrow> rat" where
  "scale10 q e = (if 0 \<le> e then q * 10 ^ nat e else q / 10 ^ nat (- e))"

definition mantissa :: "nat list \<Rightarrow> nat list \<Rightarrow> rat" where
  "mantissa ip fp = of_nat (digits_value ip) + of_nat (digits_value fp) / 10 ^ length fp"

text \<open>What may follow the digits of a number: nothing, or \<open>("e" | "E") [sign] digitpart\<close>.\<close>

definition read_exponent :: "string \<Rightarrow> int option" where
  "read_exponent r =
     (case r of
        [] \<Rightarrow> Some 0
      | c # cs \<Rightarrow>
          if c = CHR ''e'' \<or> c = CHR ''E'' then
            (case read_sign cs of (neg, r1) \<Rightarrow>
               (case digitpart r1 of
                  None \<Rightarrow> None
                | Some (ds, r2) \<Rightarrow>
                    if r2 = [] then Some (if neg then - int (digits_value ds) else int (digits_value ds))
                    else None))
          else None)"

text \<open>
  \<open>floatnumber ::= ([digitpart] "." digitpart | digitpart ["."]) [exponent]\<close>, the whole
  text read.
\<close>

definition float_number :: "string \<Rightarrow> rat option" where
  "float_number s =
     (case digitpart s of
        Some (ip, r) \<Rightarrow>
          (case r of
             [] \<Rightarrow> Some (mantissa ip [])
           | c # cs \<Rightarrow>
               if c = CHR ''.'' then
                 (case digitpart cs of
                    Some (fp, r2) \<Rightarrow> map_option (scale10 (mantissa ip fp)) (read_exponent r2)
                  | None \<Rightarrow> map_option (scale10 (mantissa ip [])) (read_exponent cs))
               else map_option (scale10 (mantissa ip [])) (read_exponent r))
      | None \<Rightarrow>
          (case s of
             [] \<Rightarrow> None
           | c # cs \<Rightarrow>
               if c = CHR ''.'' then
                 (case digitpart cs of
                    Some (fp, r2) \<Rightarrow> map_option (scale10 (mantissa [] fp)) (read_exponent r2)
                  | None \<Rightarrow> None)
               else None))"

text \<open>
  \<^verbatim>\<open>float(s)\<close> for a string: white space stripped, an optional sign, then \<open>inf\<close>,
  \<open>infinity\<close> or \<open>nan\<close> in any case, or a \<open>floatnumber\<close>.  \<open>None\<close> is \<^verbatim>\<open>ValueError\<close>.
\<close>

definition float_of_str :: "string \<Rightarrow> pyfloat option" where
  "float_of_str s =
     (case read_sign (strip s) of (neg, r) \<Rightarrow>
        (let w = map ascii_lower_char r in
         if w = ''inf'' \<or> w = ''infinity'' then Some (if neg then NegInf else PosInf)
         else if w = ''nan'' then Some NaN
         else map_option (\<lambda>q. float_of_rat (if neg then - q else q)) (float_number r)))"

fun py_float :: "pyval \<Rightarrow> pyerror + pyfloat" where
  "py_float PNone = Inl TypeError"
| "py_float (PBool b) = Inr (Fin (if b then 1 else 0))"
| "py_float (PInt n) =
     (if dbl_overflow \<le> \<bar>of_int n\<bar> then Inl OverflowError else Inr (Fin (of_int n)))"
| "py_float (PFloat f) = Inr f"
| "py_float (PStr s) = (case float_of_str s of None \<Rightarrow> Inl ValueError | Some f \<Rightarrow> Inr f)"
| "py_float (PList xs) = Inl TypeError"
| "py_float (PDict kvs) = Inl TypeError"

text \<open>
  \<^verbatim>\<open>int(s)\<close> for a string, base 10: white space stripped, an optional sign, one
  \<open>digitpart\<close>.  More than 4300 digits are refused (the interpreter's limit on the
  conversion).  \<open>None\<close> is \<^verbatim>\<open>ValueError\<close>.
\<close>

definition int_of_str :: "string \<Rightarrow> int option" where
  "int_of_str s =
     (case read_sign (strip s) of (neg, r) \<Rightarrow>
        (case digitpart r of
           None \<Rightarrow> None
         | Some (ds, r2) \<Rightarrow>
             if r2 = [] \<and> length ds \<le> 4300
             then Some (if neg then - int (digits_value ds) else int (digits_value ds))
             else None))"

text \<open>\<^verbatim>\<open>str(n)\<close> of an integer, which is also how SQLite writes an INTEGER as TEXT.\<close>

function nat_text :: "nat \<Rightarrow> string" where
  "nat_text n =
     (if n < 10 then [char_of (48 + n)] else nat_text (n div 10) @ [char_of (48 + n mod 10)])"
  by pat_completeness auto
termination
  by (relation "measure id") auto

declare nat_text.simps [simp del]

definition int_text :: "int \<Rightarrow> string" where
  "int_text i = (if i < 0 then CHR ''-'' # nat_text (nat (- i)) else nat_text (nat i))"

section \<open>The storage engine\<close>

text \<open>
  The values that reach SQLite as parameters of a statement.  A REAL is never NaN: a NaN
  is bound as NULL.
\<close>

datatype sqlval = SNull | SInt int | SReal pyfloat | SText string

text \<open>
  How the sqlite3 module binds a Python value to a \<open>?\<close> of a statement: \<^verbatim>\<open>None\<close>, \<^verbatim>\<open>int\<close>
  (and \<^verbatim>\<open>bool\<close>, a subclass), \<^verbatim>\<open>float\<close> and \<^verbatim>\<open>str\<close> are supported, an \<^verbatim>\<open>int\<close> must fit in 64
  bits, any other type is an error.
\<close>

definition int64 :: "int \<Rightarrow> bool" where
  "int64 n = (- (2 ^ 63) \<le> n \<and> n < 2 ^ 63)"

fun bind_param :: "pyval \<Rightarrow> pyerror + sqlval" where
  "bind_param PNone = Inr SNull"
| "bind_param (PBool b) = Inr (SInt (if b then 1 else 0))"
| "bind_param (PInt n) = (if int64 n then Inr (SInt n) else Inl OverflowError)"
| "bind_param (PFloat f) = Inr (if f = NaN then SNull else SReal f)"
| "bind_param (PStr s) = Inr (SText s)"
| "bind_param (PList xs) = Inl BindError"
| "bind_param (PDict kvs) = Inl BindError"

text \<open>Sequencing of steps that may raise.\<close>

definition and_then :: "pyerror + 'a \<Rightarrow> ('a \<Rightarrow> pyerror + 'b) \<Rightarrow> pyerror + 'b" where
  "and_then m f = (case m of Inl e \<Rightarrow> Inl e | Inr x \<Rightarrow> f x)"

text \<open>The parameters of one statement are bound in order; the first failure is raised.\<close>

fun bind_all :: "pyval list \<Rightarrow> pyerror + sqlval list" where
  "bind_all [] = Inr []"
| "bind_all (v # vs) =
     and_then (bind_param v) (\<lambda>x. and_then (bind_all vs) (\<lambda>xs. Inr (x # xs)))"

text \<open>
  A value written to, or compared with, a column declared TEXT is converted to text
  first (\<open>None\<close> is NULL).  The text of an integer is its decimal numeral; the text SQLite
  gives a REAL is a parameter \<open>rt\<close> of the model.
\<close>

fun text_col :: "(pyfloat \<Rightarrow> string) \<Rightarrow> sqlval \<Rightarrow> string option" where
  "text_col rt SNull = None"
| "text_col rt (SInt n) = Some (int_text n)"
| "text_col rt (SReal f) = Some (rt f)"
| "text_col rt (SText s) = Some s"

text \<open>
  The column \<open>fee_percent\<close> is declared REAL and is only ever written and compared with a
  bound \<^verbatim>\<open>float\<close> or \<^verbatim>\<open>None\<close>.
\<close>

definition real_col :: "pyfloat option \<Rightarrow> pyfloat option" where
  "real_col v = (case v of None \<Rightarrow> None | Some f \<Rightarrow> if f = NaN then None else Some f)"

text \<open>
  The table \<^verbatim>\<open>offers\<close>, column by column as \<^verbatim>\<open>OfferRepository.init\<close> declares it: the columns
  declared \<open>NOT NULL\<close> hold a text, the other TEXT columns a text or NULL, \<open>fee_percent\<close> a
  REAL or NULL.
\<close>

record offer =
  o_id :: int
  o_raw_text :: string
  o_country :: "string option"
  o_method :: "string option"
  o_fee :: "string option"
  o_rate :: "string option"
  o_limits :: "string option"
  o_conditions :: "string option"
  o_status :: string
  o_created_at :: string
  o_updated_at :: string
  o_kind :: "string option"
  o_fee_percent :: "pyfloat option"

text \<open>
  The database: the rows of the table, and the largest id ever given out (the
  \<^verbatim>\<open>sqlite_sequence\<close> entry that \<^verbatim>\<open>AUTOINCREMENT\<close> keeps).
\<close>

record db =
  rows :: "offer list"
  seq :: int

definition empty_db :: db where
  "empty_db = \<lparr>rows = [], seq = 0\<rparr>"

definition max_rowid :: "db \<Rightarrow> int" where
  "max_rowid d = fold max (map o_id (rows d)) (seq d)"

text \<open>What the sqlite3 module hands back for a column of a fetched row.\<close>

definition fetch_text :: "string option \<Rightarrow> pyval" where
  "fetch_text v = (case v of None \<Rightarrow> PNone | Some s \<Rightarrow> PStr s)"

definition fetch_real :: "pyfloat option \<Rightarrow> pyval" where
  "fetch_real v = (case v of None \<Rightarrow> PNone | Some f \<Rightarrow> PFloat f)"

text \<open>\<open>ORDER BY id DESC\<close> and \<open>LIMIT ?\<close>; a negative limit is no limit.\<close>

definition order_by_id_desc :: "offer list \<Rightarrow> offer list" where
  "order_by_id_desc rs = rev (sort_key o_id rs)"

definition sql_limit :: "int \<Rightarrow> 'a list \<Rightarrow> 'a list" where
  "sql_limit n xs = (if n < 0 then xs else take (nat n) xs)"

section \<open>\<^verbatim>\<open>OfferRepository\<close>: writing and reading by id\<close>

text \<open>
  The helper \<^verbatim>\<open>safe_float\<close> of \<^verbatim>\<open>save_offer\<close>: \<^verbatim>\<open>float(value)\<close> unless the value is \<^verbatim>\<open>None\<close>,
  with \<^verbatim>\<open>TypeError\<close> and \<^verbatim>\<open>ValueError\<close> caught and turned into \<^verbatim>\<open>None\<close>.
\<close>

definition safe_float :: "pyval \<Rightarrow> pyerror + pyfloat option" where
  "safe_float v =
     (if v \<noteq> PNone then
        (case py_float v of
           Inr f \<Rightarrow> Inr (Some f)
         | Inl e \<Rightarrow> if e = TypeError \<or> e = ValueError then Inr None else Inl e)
      else Inr None)"

text \<open>
  The INSERT of \<^verbatim>\<open>save_offer\<close>, given the eleven bound parameters of the TEXT columns in
  the order of the statement (raw_text, country, method, fee, rate, limits, conditions,
  status, created_at, updated_at, kind) and the value for \<open>fee_percent\<close>.  The new id is
  one more than the largest id ever used; the table is full once that is the largest
  64-bit integer.  A NULL in a \<open>NOT NULL\<close> column is refused, and so is any other number
  of parameters.
\<close>

fun insert_offer ::
  "(pyfloat \<Rightarrow> string) \<Rightarrow> db \<Rightarrow> pyfloat option \<Rightarrow> sqlval list \<Rightarrow> pyerror + db \<times> int" where
  "insert_offer rt d fee_percent
     [raw_text, country, method, fee, rate, limits, conditions, status, created_at, updated_at,
      kind] =
     (case (text_col rt raw_text, text_col rt status, text_col rt created_at,
            text_col rt updated_at) of
        (Some raw_text', Some status', Some created_at', Some updated_at') \<Rightarrow>
          if max_rowid d = 2 ^ 63 - 1 then Inl StorageFault
          else
            (let i = max_rowid d + 1;
                 r = \<lparr>o_id = i,
                      o_raw_text = raw_text',
                      o_country = text_col rt country,
                      o_method = text_col rt method,
                      o_fee = text_col rt fee,
                      o_rate = text_col rt rate,
                      o_limits = text_col rt limits,
                      o_conditions = text_col rt conditions,
                      o_status = status',
                      o_created_at = created_at',
                      o_updated_at = updated_at',
                      o_kind = text_col rt kind,
                      o_fee_percent = real_col fee_percent\<rparr>
             in Inr (\<lparr>rows = rows d @ [r], seq = i\<rparr>, i))
      | _ \<Rightarrow> Inl StorageFault)"
| "insert_offer rt d fee_percent ps = Inl BindError"

text \<open>
  \<^verbatim>\<open>save_offer(parsed, raw_text)\<close>; \<open>now\<close> is \<^verbatim>\<open>datetime.utcnow().isoformat()\<close>.  The tuple of
  parameters is built first, left to right, then the statement is executed.  Binding the
  last parameter, a \<^verbatim>\<open>float\<close> or \<^verbatim>\<open>None\<close>, cannot fail.
\<close>

definition save_offer ::
  "(pyfloat \<Rightarrow> string) \<Rightarrow> db \<Rightarrow> pyval \<Rightarrow> string \<Rightarrow> string \<Rightarrow> pyerror + db \<times> int" where
  "save_offer rt d parsed raw_text now =
     and_then (py_get parsed ''country'') (\<lambda>country.
     and_then (py_get parsed ''method'') (\<lambda>method.
     and_then (py_get parsed ''fee'') (\<lambda>fee.
     and_then (py_get parsed ''rate'') (\<lambda>rate.
     and_then (py_get parsed ''limits'') (\<lambda>limits.
     and_then (py_get parsed ''conditions'') (\<lambda>conditions.
     and_then (py_get parsed ''kind'') (\<lambda>kind.
     and_then (py_get parsed ''fee_percent'') (\<lambda>fp.
     and_then (safe_float fp) (\<lambda>fee_percent.
     and_then (bind_all [PStr raw_text, country, method, fee, rate, limits, conditions,
                         PStr ''new'', PStr now, PStr now, kind])
       (insert_offer rt d fee_percent))))))))))"

text \<open>The tuple of all thirteen columns that \<^verbatim>\<open>get_offer_by_id\<close> selects.\<close>

definition full_tuple :: "offer \<Rightarrow> pyval list" where
  "full_tuple r =
     [PInt (o_id r), PStr (o_raw_text r), fetch_text (o_country r), fetch_text (o_method r),
      fetch_text (o_fee r), fetch_text (o_rate r), fetch_text (o_limits r),
      fetch_text (o_conditions r), PStr (o_status r), PStr (o_created_at r),
      PStr (o_updated_at r), fetch_text (o_kind r), fetch_real (o_fee_percent r)]"

text \<open>
  \<^verbatim>\<open>get_offer_by_id(offer_id)\<close>: \<^verbatim>\<open>fetchone()\<close> of \<open>WHERE id = ?\<close>, \<^verbatim>\<open>None\<close> when no row
  matches.
\<close>

definition get_offer_by_id :: "db \<Rightarrow> int \<Rightarrow> pyerror + pyval list option" where
  "get_offer_by_id d offer_id =
     and_then (bind_param (PInt offer_id)) (\<lambda>p.
       Inr (map_option full_tuple (find (\<lambda>r. SInt (o_id r) = p) (rows d))))"

text \<open>
  \<^verbatim>\<open>list_last_offers(limit)\<close>: nine columns of the \<open>limit\<close> rows of largest id, largest
  first.
\<close>

definition list_tuple :: "offer \<Rightarrow> pyval list" where
  "list_tuple r =
     [PInt (o_id r), fetch_text (o_country r), fetch_text (o_method r), fetch_text (o_fee r),
      fetch_text (o_rate r), PStr (o_status r), PStr (o_created_at r), fetch_text (o_kind r),
      fetch_real (o_fee_percent r)]"

definition list_last_offers :: "db \<Rightarrow> int \<Rightarrow> pyerror + pyval list list" where
  "list_last_offers d limit =
     and_then (bind_param (PInt limit)) (\<lambda>p.
       Inr (sql_limit limit (map list_tuple (order_by_id_desc (rows d)))))"

section \<open>\<^verbatim>\<open>OfferRepository.search_offers\<close>\<close>

text \<open>
  \<^verbatim>\<open>value.lower()\<close>: only a \<^verbatim>\<open>str\<close> has the method.  Python lowers every cased letter; below
  256 these are \<open>A\<close> to \<open>Z\<close> and the capital letters at 192 to 222 other than the
  multiplication sign at 215.
\<close>

definition py_lower_char :: "char \<Rightarrow> char" where
  "py_lower_char c =
     (let n = (of_char c :: nat) in
      if (65 \<le> n \<and> n \<le> 90) \<or> (192 \<le> n \<and> n \<le> 214) \<or> (216 \<le> n \<and> n \<le> 222)
      then char_of (n + 32) else c)"

fun py_lower :: "pyval \<Rightarrow> pyerror + string" where
  "py_lower (PStr s) = Inr (map py_lower_char s)"
| "py_lower _ = Inl AttributeError"

text \<open>
  \<^verbatim>\<open>search_offers\<close> appends to \<^verbatim>\<open>conditions\<close> and \<^verbatim>\<open>params\<close> in step.  One such pair is a
  \<open>cond\<close>: its text for \<^verbatim>\<open>conditions\<close> is \<open>cond_sql\<close>, its value for \<^verbatim>\<open>params\<close> is \<open>cond_param\<close>.
\<close>

datatype cond =
    CountryLike string
  | MethodLike string
  | StatusEq pyval
  | KindEq pyval
  | FeeGe pyfloat
  | FeeLe pyfloat

fun cond_sql :: "cond \<Rightarrow> string" where
  "cond_sql (CountryLike p) = ''LOWER(country) LIKE ?''"
| "cond_sql (MethodLike p) = ''LOWER(method) LIKE ?''"
| "cond_sql (StatusEq v) = ''status = ?''"
| "cond_sql (KindEq v) = ''kind = ?''"
| "cond_sql (FeeGe f) = ''fee_percent >= ?''"
| "cond_sql (FeeLe f) = ''fee_percent <= ?''"

fun cond_param :: "cond \<Rightarrow> pyval" where
  "cond_param (CountryLike p) = PStr p"
| "cond_param (MethodLike p) = PStr p"
| "cond_param (StatusEq v) = v"
| "cond_param (KindEq v) = v"
| "cond_param (FeeGe f) = PFloat f"
| "cond_param (FeeLe f) = PFloat f"

text \<open>The six \<^verbatim>\<open>if\<close> statements of \<^verbatim>\<open>search_offers\<close>, in order.\<close>

definition like_cond :: "(string \<Rightarrow> cond) \<Rightarrow> pyval \<Rightarrow> pyerror + cond list" where
  "like_cond mk v =
     (if py_truthy v then and_then (py_lower v) (\<lambda>s. Inr [mk (''%'' @ s @ ''%'')]) else Inr [])"

definition eq_cond :: "(pyval \<Rightarrow> cond) \<Rightarrow> pyval \<Rightarrow> cond list" where
  "eq_cond mk v = (if py_truthy v then [mk v] else [])"

definition fee_cond :: "(pyfloat \<Rightarrow> cond) \<Rightarrow> pyval \<Rightarrow> pyerror + cond list" where
  "fee_cond mk v = (if v \<noteq> PNone then and_then (py_float v) (\<lambda>f. Inr [mk f]) else Inr [])"

definition search_conditions :: "pyval \<Rightarrow> pyerror + cond list" where
  "search_conditions filters =
     and_then (py_get filters ''country'') (\<lambda>country.
     and_then (py_get filters ''method'') (\<lambda>method.
     and_then (py_get filters ''status'') (\<lambda>status.
     and_then (py_get filters ''kind'') (\<lambda>kind.
     and_then (py_get filters ''min_fee_percent'') (\<lambda>min_fee.
     and_then (py_get filters ''max_fee_percent'') (\<lambda>max_fee.
     and_then (like_cond CountryLike country) (\<lambda>c1.
     and_then (like_cond MethodLike method) (\<lambda>c2.
     and_then (Inr (eq_cond StatusEq status)) (\<lambda>c3.
     and_then (Inr (eq_cond KindEq kind)) (\<lambda>c4.
     and_then (fee_cond FeeGe min_fee) (\<lambda>c5.
     and_then (fee_cond FeeLe max_fee) (\<lambda>c6.
       Inr (c1 @ c2 @ c3 @ c4 @ c5 @ c6)))))))))))))"

text \<open>\<^verbatim>\<open>sep.join(xs)\<close>.\<close>

fun join :: "string \<Rightarrow> string list \<Rightarrow> string" where
  "join sep [] = []"
| "join sep [x] = x"
| "join sep (x # y # ys) = x @ sep @ join sep (y # ys)"

definition where_clause :: "cond list \<Rightarrow> string" where
  "where_clause cs = (if cs \<noteq> [] then join '' AND '' (map cond_sql cs) else ''1=1'')"

text \<open>
  The text of the statement (its layout white space reduced to single blanks) and the
  list \<^verbatim>\<open>params\<close> handed to \<^verbatim>\<open>db.execute\<close>.
\<close>

definition search_sql :: "cond list \<Rightarrow> string" where
  "search_sql cs =
     ''SELECT id, country, method, fee, rate, status, kind, fee_percent FROM offers WHERE ''
       @ where_clause cs @ '' ORDER BY id DESC LIMIT ?''"

definition search_params :: "cond list \<Rightarrow> int \<Rightarrow> pyval list" where
  "search_params cs limit = map cond_param cs @ [PInt limit]"

definition search_query :: "pyval \<Rightarrow> int \<Rightarrow> pyerror + string \<times> pyval list" where
  "search_query filters limit =
     and_then (search_conditions filters) (\<lambda>cs. Inr (search_sql cs, search_params cs limit))"

text \<open>
  SQLite's \<open>LOWER\<close> lowers the ASCII letters only.  Its \<open>LIKE\<close> reads pattern and text up
  to the first NUL character; in the pattern \<open>%\<close> stands for any run of characters and
  \<open>_\<close> for any one character; every other character matches itself, the ASCII letters in
  either case.  NULL matches nothing.
\<close>

definition sql_lower :: "string option \<Rightarrow> string option" where
  "sql_lower v = map_option (map ascii_lower_char) v"

fun like_match :: "string \<Rightarrow> string \<Rightarrow> bool" where
  "like_match [] [] = True"
| "like_match [] (c # cs) = False"
| "like_match (p # ps) [] = (p = CHR ''%'' \<and> like_match ps [])"
| "like_match (p # ps) (c # cs) =
     (if p = CHR ''%'' then like_match ps (c # cs) \<or> like_match (p # ps) cs
      else (p = CHR ''_'' \<or> ascii_lower_char p = ascii_lower_char c) \<and> like_match ps cs)"

definition c_str :: "string \<Rightarrow> string" where
  "c_str s = takeWhile (\<lambda>c. c \<noteq> CHR 0x00) s"

definition sql_like :: "string option \<Rightarrow> string \<Rightarrow> bool" where
  "sql_like v p = (case v of None \<Rightarrow> False | Some t \<Rightarrow> like_match (c_str p) (c_str t))"

text \<open>
  \<open>column = ?\<close> for a TEXT column: the parameter is converted to text, and the texts must
  be the same.  NULL equals nothing.
\<close>

definition sql_text_eq :: "(pyfloat \<Rightarrow> string) \<Rightarrow> string option \<Rightarrow> pyval \<Rightarrow> bool" where
  "sql_text_eq rt col v =
     (case bind_param v of
        Inl e \<Rightarrow> False
      | Inr p \<Rightarrow> (case (col, text_col rt p) of (Some s, Some t) \<Rightarrow> s = t | _ \<Rightarrow> False))"

text \<open>The order of the REAL values; a comparison with NULL is never true.\<close>

fun float_le :: "pyfloat \<Rightarrow> pyfloat \<Rightarrow> bool" where
  "float_le NaN y = False"
| "float_le x NaN = False"
| "float_le NegInf y = True"
| "float_le x PosInf = True"
| "float_le (Fin a) (Fin b) = (a \<le> b)"
| "float_le x y = False"

definition sql_real_le :: "pyfloat option \<Rightarrow> pyfloat option \<Rightarrow> bool" where
  "sql_real_le a b = (case (a, b) of (Some x, Some y) \<Rightarrow> float_le x y | _ \<Rightarrow> False)"

fun cond_holds :: "(pyfloat \<Rightarrow> string) \<Rightarrow> offer \<Rightarrow> cond \<Rightarrow> bool" where
  "cond_holds rt r (CountryLike p) = sql_like (sql_lower (o_country r)) p"
| "cond_holds rt r (MethodLike p) = sql_like (sql_lower (o_method r)) p"
| "cond_holds rt r (StatusEq v) = sql_text_eq rt (Some (o_status r)) v"
| "cond_holds rt r (KindEq v) = sql_text_eq rt (o_kind r) v"
| "cond_holds rt r (FeeGe f) = sql_real_le (real_col (Some f)) (o_fee_percent r)"
| "cond_holds rt r (FeeLe f) = sql_real_le (o_fee_percent r) (real_col (Some f))"

text \<open>The eight columns that \<^verbatim>\<open>search_offers\<close> selects.\<close>

definition search_tuple :: "offer \<Rightarrow> pyval list" where
  "search_tuple r =
     [PInt (o_id r), fetch_text (o_country r), fetch_text (o_method r), fetch_text (o_fee r),
      fetch_text (o_rate r), PStr (o_status r), fetch_text (o_kind r),
      fetch_real (o_fee_percent r)]"

text \<open>The rows a WHERE clause that is the conjunction of \<open>cs\<close> lets through.\<close>

definition select_where :: "(pyfloat \<Rightarrow> string) \<Rightarrow> cond list \<Rightarrow> offer list \<Rightarrow> offer list" where
  "select_where rt cs rs = filter (\<lambda>r. list_all (cond_holds rt r) cs) rs"

definition search_offers ::
  "(pyfloat \<Rightarrow> string) \<Rightarrow> db \<Rightarrow> pyval \<Rightarrow> int \<Rightarrow> pyerror + pyval list list" where
  "search_offers rt d filters limit =
     and_then (search_conditions filters) (\<lambda>cs.
     and_then (bind_all (search_params cs limit)) (\<lambda>ps.
       Inr (sql_limit limit (map search_tuple (order_by_id_desc (select_where rt cs (rows d)))))))"

section \<open>\<^verbatim>\<open>OfferInterpreter.interpret\<close>\<close>

text \<open>
  The content of the response of the external service, as \<^verbatim>\<open>json.loads\<close> reads it: no
  content at all (\<^verbatim>\<open>None\<close>, on which \<^verbatim>\<open>json.loads\<close> raises \<^verbatim>\<open>TypeError\<close>), a text that is not
  JSON, or a JSON text, given by the value it decodes to.
\<close>

datatype content = NoContent | Malformed | Wellformed pyval

fun json_loads :: "content \<Rightarrow> pyerror + pyval" where
  "json_loads NoContent = Inl TypeError"
| "json_loads Malformed = Inl JSONDecodeError"
| "json_loads (Wellformed v) = Inr v"

text \<open>\<^verbatim>\<open>isinstance(parsed, dict)\<close>.\<close>

fun is_dict :: "pyval \<Rightarrow> bool" where
  "is_dict (PDict d) = True"
| "is_dict _ = False"

text \<open>
  \<^verbatim>\<open>try: body except Exception as exc: handler\<close>.  Every \<open>pyerror\<close> is an \<^verbatim>\<open>Exception\<close>.
\<close>

definition try_except :: "pyerror + 'a \<Rightarrow> (pyerror \<Rightarrow> pyerror + 'a) \<Rightarrow> pyerror + 'a" where
  "try_except body handler = (case body of Inl exc \<Rightarrow> handler exc | Inr x \<Rightarrow> Inr x)"

text \<open>
  \<^verbatim>\<open>interpret(text)\<close>, here \<open>interpret_text\<close>.  The call to the external service is the
  parameter \<open>call\<close>: the content it answers with, or the exception it raises, which is
  outside the \<^verbatim>\<open>try\<close>.
\<close>

definition interpret_text :: "(string \<Rightarrow> pyerror + content) \<Rightarrow> string \<Rightarrow> pyerror + pyval" where
  "interpret_text call txt =
     and_then (call txt) (\<lambda>content.
       try_except
         (and_then (json_loads content) (\<lambda>parsed.
            if \<not> is_dict parsed then Inl ValueError else Inr parsed))
         (\<lambda>exc. Inl (RuntimeError exc)))"

text \<open>An external service that answers every text with the content \<open>c\<close>.\<close>

definition answers :: "content \<Rightarrow> string \<Rightarrow> pyerror + content" where
  "answers c txt = Inr c"

section \<open>\<^verbatim>\<open>BotService\<close>\<close>

text \<open>
  The replies, by the message they carry:
  \<^item> \<open>Thinking\<close>: the notice sent before the request is interpreted;
  \<^item> \<open>NotUnderstood\<close>: the request to rephrase, for a mode that is neither offer nor search;
  \<^item> \<open>ProcessingError exc\<close>: the error message, which ends with the text of \<open>exc\<close>;
  \<^item> \<open>OfferSaved offer_id parsed\<close>: the confirmation with the new id and the fields of
    \<open>parsed\<close>;
  \<^item> \<open>NothingFound\<close> and \<open>SearchResults rows\<close>: the outcome of a search;
  \<^item> \<open>Usage\<close>, \<open>IdMustBeNumber\<close>, \<open>OfferNotFound offer_id\<close> and \<open>OfferCard row\<close>: the
    replies of the command \<^verbatim>\<open>/offer\<close>.

  Sending a reply is taken to succeed.
\<close>

datatype reply =
    Thinking
  | NotUnderstood
  | ProcessingError pyerror
  | OfferSaved int pyval
  | NothingFound
  | SearchResults "pyval list list"
  | Usage
  | IdMustBeNumber
  | OfferNotFound int
  | OfferCard "pyval list"

definition handle_offer_mode ::
  "(pyfloat \<Rightarrow> string) \<Rightarrow> db \<Rightarrow> pyval \<Rightarrow> string \<Rightarrow> string \<Rightarrow> pyerror + db \<times> reply list" where
  "handle_offer_mode rt d data user_text now =
     and_then (py_get data ''offer'') (\<lambda>offer.
       (let parsed = or_empty_dict offer in
        and_then (save_offer rt d parsed user_text now) (\<lambda>(d', offer_id).
          Inr (d', [OfferSaved offer_id parsed]))))"

definition handle_search_mode ::
  "(pyfloat \<Rightarrow> string) \<Rightarrow> db \<Rightarrow> pyval \<Rightarrow> pyerror + db \<times> reply list" where
  "handle_search_mode rt d data =
     and_then (py_get data ''search'') (\<lambda>search.
       (let filters = or_empty_dict search in
        and_then (search_offers rt d filters 20) (\<lambda>rows.
          if rows = [] then Inr (d, [NothingFound]) else Inr (d, [SearchResults rows]))))"

text \<open>
  \<^verbatim>\<open>handle_text\<close>: the database before, the text of the message (\<^verbatim>\<open>None\<close> reads as the empty
  text) and the time; the database after and the replies sent.  The first reply is sent
  before the \<^verbatim>\<open>try\<close>.
\<close>

definition or_empty_str :: "string option \<Rightarrow> string" where
  "or_empty_str txt = (case txt of None \<Rightarrow> [] | Some t \<Rightarrow> t)"

definition handle_text ::
  "(pyfloat \<Rightarrow> string) \<Rightarrow> (string \<Rightarrow> pyerror + content) \<Rightarrow> db \<Rightarrow> string option \<Rightarrow> string
     \<Rightarrow> pyerror + db \<times> reply list" where
  "handle_text rt call d txt now =
     (let user_text = or_empty_str txt in
      and_then
        (try_except
           (and_then (interpret_text call user_text) (\<lambda>data.
            and_then (py_get data ''mode'') (\<lambda>mode.
              if mode = PStr ''offer'' then handle_offer_mode rt d data user_text now
              else if mode = PStr ''search'' then handle_search_mode rt d data
              else Inr (d, [NotUnderstood]))))
           (\<lambda>exc. Inr (d, [ProcessingError exc])))
        (\<lambda>(d', replies). Inr (d', Thinking # replies)))"

text \<open>\<^verbatim>\<open>handle_offer\<close>, the command \<^verbatim>\<open>/offer <id>\<close>; \<open>args\<close> is \<^verbatim>\<open>context.args\<close>.\<close>

definition handle_offer :: "db \<Rightarrow> string list \<Rightarrow> pyerror + reply list" where
  "handle_offer d args =
     (if args = [] then Inr [Usage]
      else
        (case int_of_str (hd args) of
           None \<Rightarrow> Inr [IdMustBeNumber]
         | Some offer_id \<Rightarrow>
             and_then (get_offer_by_id d offer_id) (\<lambda>row.
               case row of
                 None \<Rightarrow> Inr [OfferNotFound offer_id]
               | Some t \<Rightarrow> Inr [OfferCard t])))"

section \<open>Notions used in the statements\<close>

text \<open>
  An offer payload typed as the data model types it: the free-text fields and \<open>kind\<close> hold
  a string or are absent, \<open>fee_percent\<close> holds a number (a \<^verbatim>\<open>float\<close>, not NaN) or is absent.
  A key whose value is \<^verbatim>\<open>None\<close> counts as absent.
\<close>

fun text_field :: "pyval \<Rightarrow> bool" where
  "text_field PNone = True"
| "text_field (PStr s) = True"
| "text_field v = False"

fun number_field :: "pyval \<Rightarrow> bool" where
  "number_field PNone = True"
| "number_field (PFloat f) = (f \<noteq> NaN)"
| "number_field v = False"

definition typed_offer :: "(string \<times> pyval) list \<Rightarrow> bool" where
  "typed_offer p =
     (text_field (dict_get p ''country'') \<and> text_field (dict_get p ''method'') \<and>
      text_field (dict_get p ''fee'') \<and> text_field (dict_get p ''rate'') \<and>
      text_field (dict_get p ''limits'') \<and> text_field (dict_get p ''conditions'') \<and>
      text_field (dict_get p ''kind'') \<and> number_field (dict_get p ''fee_percent''))"

text \<open>
  Which of the six criteria a filter sets, by the tests of \<^verbatim>\<open>search_offers\<close>: the truth
  value of \<open>country\<close>, \<open>method\<close>, \<open>status\<close> and \<open>kind\<close>, and whether \<open>min_fee_percent\<close> and
  \<open>max_fee_percent\<close> are not \<^verbatim>\<open>None\<close>.
\<close>

definition criteria_set :: "(string \<times> pyval) list \<Rightarrow> bool list" where
  "criteria_set f =
     [py_truthy (dict_get f ''country''), py_truthy (dict_get f ''method''),
      py_truthy (dict_get f ''status''), py_truthy (dict_get f ''kind''),
      dict_get f ''min_fee_percent'' \<noteq> PNone, dict_get f ''max_fee_percent'' \<noteq> PNone]"




text \<open>A tuple of \<^verbatim>\<open>list_last_offers\<close> without its seventh column, \<open>created_at\<close>.\<close>

definition without_created_at :: "pyval list \<Rightarrow> pyval list" where
  "without_created_at t = take 6 t @ drop 7 t"

text \<open>
  Inputs of the examples: a whole number of 401 digits; the offer of the scenario of the
  specification; a rendering of REAL values as text, for examples in which no REAL is
  written to a TEXT column.
\<close>

definition huge_int :: int where
  "huge_int = 10 ^ 400"

definition scenario_offer :: "(string \<times> pyval) list" where
  "scenario_offer =
     [(''country'', PStr ''RU''), (''method'', PStr ''SBP''), (''fee'', PStr ''1.8%''),
      (''kind'', PStr ''channel''), (''fee_percent'', PFloat (Fin (18 / 10)))]"

definition rt0 :: "pyfloat \<Rightarrow> string" where
  "rt0 f = []"



text \<open>
  Rows and databases of the examples: offers that differ in their id and \<open>fee_percent\<close>,
  and offers that differ in their id, country and method.
\<close>

definition fee_row :: "int \<Rightarrow> pyfloat option \<Rightarrow> offer" where
  "fee_row i fp =
     \<lparr>o_id = i, o_raw_text = ''offer'', o_country = None, o_method = None, o_fee = None,
      o_rate = None, o_limits = None, o_conditions = None, o_status = ''new'',
      o_created_at = ''2024-05-01T10:00:00'', o_updated_at = ''2024-05-01T10:00:00'',
      o_kind = None, o_fee_percent = fp\<rparr>"

definition fees_db :: db where
  "fees_db = \<lparr>rows = [fee_row 1 (Some (Fin 5)), fee_row 2 (Some (Fin 12)), fee_row 3 None],
              seq = 3\<rparr>"



text \<open>The statement that searches by country and by an upper bound of the fee.\<close>

definition search_text_country_max :: string where
  "search_text_country_max =
     ''SELECT id, country, method, fee, rate, status, kind, fee_percent FROM offers WHERE '' @
     ''LOWER(country) LIKE ? AND fee_percent <= ? ORDER BY id DESC LIMIT ?''"

section \<open>Basic facts\<close>

lemma and_then_Inr [simp]: "and_then (Inr x) f = f x"
  by (simp add: and_then_def)

lemma and_then_Inl [simp]: "and_then (Inl e) f = Inl e"
  by (simp add: and_then_def)

lemma try_except_Inr [simp]: "try_except (Inr x) h = Inr x"
  by (simp add: try_except_def)

lemma try_except_Inl [simp]: "try_except (Inl e) h = h e"
  by (simp add: try_except_def)

lemma float_of_str_cheap: "float_of_str ''cheap'' = None"
  by (simp add: float_of_str_def strip_def is_space_def float_number_def ascii_lower_char_def
      is_digit_def)

section \<open>The interpreter validates the object, not the mode\<close>

text \<open>
  C3, as the code has it.  \<open>interpret_text\<close> raises \<open>RuntimeError\<close> when the response has no
  content, when the content is not JSON and when it decodes to something that is not an
  object.  Every object is handed to the caller as it is, whether or not it has a key
  \<open>mode\<close>; no mode is added or guessed.
\<close>

theorem interpret_text_checks_object_only:
  assumes "call txt = Inr c"
  shows "interpret_text call txt =
     (case c of
        NoContent \<Rightarrow> Inl (RuntimeError TypeError)
      | Malformed \<Rightarrow> Inl (RuntimeError JSONDecodeError)
      | Wellformed v \<Rightarrow> if is_dict v then Inr v else Inl (RuntimeError ValueError))"
  using assms by (cases c) (simp_all add: interpret_text_def)

theorem interpret_text_checks_object_only_witness:
  "answers (Wellformed (PDict [(''mode'', PStr ''search'')])) ''find offers'' =
     Inr (Wellformed (PDict [(''mode'', PStr ''search'')])) \<and>
   interpret_text (answers (Wellformed (PDict [(''mode'', PStr ''search'')]))) ''find offers'' =
     Inr (PDict [(''mode'', PStr ''search'')])"
proof -
  have h: "answers (Wellformed (PDict [(''mode'', PStr ''search'')])) ''find offers'' =
     Inr (Wellformed (PDict [(''mode'', PStr ''search'')]))"
    by (simp add: answers_def)
  show ?thesis
    using h interpret_text_checks_object_only
      [of "answers (Wellformed (PDict [(''mode'', PStr ''search'')]))" "''find offers''"
          "Wellformed (PDict [(''mode'', PStr ''search'')])"]
    by simp
qed

text \<open>
  C3 as stated fails: the content \<^verbatim>\<open>{}\<close> is an object without \<open>mode\<close>, and \<open>interpret_text\<close>
  returns it instead of raising.
\<close>

theorem interpret_text_mode_counterexample:
  "interpret_text (answers (Wellformed (PDict []))) ''hello'' = Inr (PDict []) \<and>
   py_get (PDict []) ''mode'' = Inr PNone"
  by (simp add: interpret_text_def answers_def dict_get_def)

section \<open>A bound that is not a number makes the search raise\<close>

text \<open>
  C10.  When \<open>min_fee_percent\<close> or \<open>max_fee_percent\<close> is a value on which \<^verbatim>\<open>float()\<close> raises,
  such as the string \<^verbatim>\<open>"cheap"\<close>, \<open>search_offers\<close> raises that exception, whatever the
  database and the limit; \<open>safe_float\<close>, used when an offer is written, turns the same
  value into \<^verbatim>\<open>None\<close> when the exception is \<open>TypeError\<close> or \<open>ValueError\<close>.
\<close>

theorem search_offers_raises_on_unparsable_bound:
  assumes "py_float v = Inl e" and "v \<noteq> PNone"
  shows "search_offers rt d (PDict [(''min_fee_percent'', v)]) limit = Inl e \<and>
     search_offers rt d (PDict [(''max_fee_percent'', v)]) limit = Inl e \<and>
     (e = TypeError \<or> e = ValueError \<longrightarrow> safe_float v = Inr None)"
  using assms
  by (simp add: search_offers_def search_conditions_def dict_get_def like_cond_def eq_cond_def
      fee_cond_def safe_float_def)

theorem search_offers_raises_on_unparsable_bound_witness:
  "py_float (PStr ''cheap'') = Inl ValueError \<and>
   search_offers rt0 empty_db (PDict [(''min_fee_percent'', PStr ''cheap'')]) 20 = Inl ValueError \<and>
   search_offers rt0 empty_db (PDict [(''max_fee_percent'', PStr ''cheap'')]) 20 = Inl ValueError \<and>
   safe_float (PStr ''cheap'') = Inr None"
proof -
  have h: "py_float (PStr ''cheap'') = Inl ValueError"
    by (simp add: float_of_str_cheap)
  have n: "PStr ''cheap'' \<noteq> PNone"
    by simp
  show ?thesis
    using h search_offers_raises_on_unparsable_bound [OF h n, of rt0 empty_db 20] by simp
qed

section \<open>The command \<^verbatim>\<open>/offer\<close>\<close>

text \<open>
  What \<open>handle_offer\<close> does.  Without an argument it replies with the usage line; with a
  first argument that \<^verbatim>\<open>int()\<close> refuses it replies that the id must be a number; in both
  cases whatever the database holds.  With an integer id that fits the 64-bit ids of the
  table and that no row has, it replies that the offer was not found.  An error of the
  lookup is no reply at all: it is raised by \<open>handle_offer\<close>.
\<close>

lemma handle_offer_replies:
  "handle_offer d [] = Inr [Usage] \<and>
   (int_of_str a = None \<longrightarrow> handle_offer d (a # as) = Inr [IdMustBeNumber]) \<and>
   (int_of_str a = Some i \<and> int64 i \<and> (\<forall>r \<in> set (rows d). o_id r \<noteq> i) \<longrightarrow>
      handle_offer d (a # as) = Inr [OfferNotFound i]) \<and>
   (int_of_str a = Some i \<and> get_offer_by_id d i = Inl e \<longrightarrow> handle_offer d (a # as) = Inl e)"
proof -
  have "find (\<lambda>r. o_id r = i) (rows d) = None" if "\<forall>r \<in> set (rows d). o_id r \<noteq> i"
    using that by (simp add: find_None_iff)
  then show ?thesis
    by (auto simp: handle_offer_def get_offer_by_id_def)
qed

lemmas int_of_str_eval =
  int_of_str_def strip_def is_space_def is_digit_def digit_val_def digits_value_def

lemma int_of_str_abc: "int_of_str ''abc'' = None"
  by (simp add: int_of_str_eval)

lemma int_of_str_999: "int_of_str ''999'' = Some 999"
  by (simp add: int_of_str_eval)

lemma int_of_str_2_63: "int_of_str ''9223372036854775808'' = Some 9223372036854775808"
  by (simp add: int_of_str_eval)

lemma handle_offer_examples:
  "handle_offer empty_db [] = Inr [Usage] \<and>
   handle_offer empty_db [''abc''] = Inr [IdMustBeNumber] \<and>
   handle_offer empty_db [''999''] = Inr [OfferNotFound 999] \<and>
   handle_offer empty_db [''9223372036854775808''] = Inl OverflowError"
proof -
  have h2: "int64 999 \<and> (\<forall>r \<in> set (rows empty_db). o_id r \<noteq> 999)"
    by (simp add: empty_db_def int64_def)
  have h3: "get_offer_by_id empty_db 9223372036854775808 = Inl OverflowError"
    by (simp add: get_offer_by_id_def int64_def)
  have a: "handle_offer empty_db [] = Inr [Usage]"
    using handle_offer_replies [of empty_db] by blast
  have b: "handle_offer empty_db [''abc''] = Inr [IdMustBeNumber]"
    using handle_offer_replies [of empty_db "''abc''" "[]"] int_of_str_abc by blast
  have c: "handle_offer empty_db [''999''] = Inr [OfferNotFound 999]"
    using handle_offer_replies [of empty_db "''999''" "[]" 999] int_of_str_999 h2 by blast
  have d: "handle_offer empty_db [''9223372036854775808''] = Inl OverflowError"
    using handle_offer_replies
      [of empty_db "''9223372036854775808''" "[]" 9223372036854775808 OverflowError]
      int_of_str_2_63 h3 by blast
  show ?thesis
    using a b c d by blast
qed

text \<open>
  C9 on the code: the argument \<^verbatim>\<open>9223372036854775808\<close> is an integer for \<^verbatim>\<open>int()\<close>, so no
  corrective reply is sent; it does not fit the 64-bit ids of the table, so the lookup
  raises \<open>OverflowError\<close>, whatever the table holds; and \<open>handle_offer\<close> has no \<^verbatim>\<open>try\<close> around
  the lookup, so the exception leaves it and no reply is sent.
\<close>

theorem handle_offer_raises_on_out_of_range_id:
  "handle_offer d [''9223372036854775808''] = Inl OverflowError"
  by (simp add: handle_offer_def int_of_str_2_63 get_offer_by_id_def int64_def)

section \<open>Writing an offer and reading it back\<close>

lemma fold_max_ge_start: "(a::int) \<le> fold max xs a"
proof (induction xs arbitrary: a)
  case Nil
  show ?case by simp
next
  case (Cons x xs)
  have "a \<le> max x a" by simp
  also have "\<dots> \<le> fold max xs (max x a)" by (rule Cons.IH)
  finally show ?case by simp
qed

lemma fold_max_ge_elem: "x \<in> set xs \<Longrightarrow> (x::int) \<le> fold max xs a"
proof (induction xs arbitrary: a)
  case Nil
  then show ?case by simp
next
  case (Cons y ys)
  show ?case
  proof (cases "x = y")
    case True
    have "x \<le> max y a" using True by simp
    also have "\<dots> \<le> fold max ys (max y a)" by (rule fold_max_ge_start)
    finally show ?thesis by simp
  next
    case False
    with Cons.prems have "x \<in> set ys" by simp
    then show ?thesis using Cons.IH by simp
  qed
qed

lemma seq_le_max_rowid: "seq d \<le> max_rowid d"
  by (simp add: max_rowid_def fold_max_ge_start)

lemma o_id_le_max_rowid: "r \<in> set (rows d) \<Longrightarrow> o_id r \<le> max_rowid d"
  by (simp add: max_rowid_def fold_max_ge_elem)

lemma find_append_fresh:
  "\<forall>x \<in> set xs. \<not> P x \<Longrightarrow> P r \<Longrightarrow> find P (xs @ [r]) = Some r"
  by (induction xs) simp_all

lemma text_field_bind:
  "text_field v \<Longrightarrow> \<exists>x. bind_param v = Inr x \<and> fetch_text (text_col rt x) = v"
  by (cases v) (simp_all add: fetch_text_def)

lemma number_field_safe_float:
  "number_field v \<Longrightarrow> \<exists>f. safe_float v = Inr f \<and> fetch_real (real_col f) = v"
  by (cases v) (simp_all add: safe_float_def fetch_real_def real_col_def)

text \<open>
  C1.  For a payload typed as the data model types it, with any of the optional fields
  present or absent, and a table that is not full, \<open>save_offer\<close> returns the next id, and
  \<open>get_offer_by_id\<close> on that id then returns the record with that id and the raw text, every
  field of the payload as it was given (\<^verbatim>\<open>None\<close> for an absent one), the status \<open>new\<close>, and
  \<open>created_at\<close> equal to \<open>updated_at\<close>.
\<close>

theorem create_then_get_by_id:
  assumes "typed_offer p" and "0 \<le> seq d" and "max_rowid d < 2 ^ 63 - 1"
  shows "\<exists>d'. save_offer rt d (PDict p) raw_text now = Inr (d', max_rowid d + 1) \<and>
     get_offer_by_id d' (max_rowid d + 1) =
       Inr (Some [PInt (max_rowid d + 1), PStr raw_text,
                  dict_get p ''country'', dict_get p ''method'', dict_get p ''fee'',
                  dict_get p ''rate'', dict_get p ''limits'', dict_get p ''conditions'',
                  PStr ''new'', PStr now, PStr now,
                  dict_get p ''kind'', dict_get p ''fee_percent''])"
proof -
  from assms(1) obtain x1 x2 x3 x4 x5 x6 x7 f where
    b1: "bind_param (dict_get p ''country'') = Inr x1"
      and f1: "fetch_text (text_col rt x1) = dict_get p ''country''"
    and b2: "bind_param (dict_get p ''method'') = Inr x2"
      and f2: "fetch_text (text_col rt x2) = dict_get p ''method''"
    and b3: "bind_param (dict_get p ''fee'') = Inr x3"
      and f3: "fetch_text (text_col rt x3) = dict_get p ''fee''"
    and b4: "bind_param (dict_get p ''rate'') = Inr x4"
      and f4: "fetch_text (text_col rt x4) = dict_get p ''rate''"
    and b5: "bind_param (dict_get p ''limits'') = Inr x5"
      and f5: "fetch_text (text_col rt x5) = dict_get p ''limits''"
    and b6: "bind_param (dict_get p ''conditions'') = Inr x6"
      and f6: "fetch_text (text_col rt x6) = dict_get p ''conditions''"
    and b7: "bind_param (dict_get p ''kind'') = Inr x7"
      and f7: "fetch_text (text_col rt x7) = dict_get p ''kind''"
    and sf: "safe_float (dict_get p ''fee_percent'') = Inr f"
      and ff: "fetch_real (real_col f) = dict_get p ''fee_percent''"
    unfolding typed_offer_def
    using text_field_bind [of _ rt] number_field_safe_float
    by metis
  let ?i = "max_rowid d + 1"
  let ?r = "\<lparr>o_id = ?i, o_raw_text = raw_text, o_country = text_col rt x1,
      o_method = text_col rt x2, o_fee = text_col rt x3, o_rate = text_col rt x4,
      o_limits = text_col rt x5, o_conditions = text_col rt x6, o_status = ''new'',
      o_created_at = now, o_updated_at = now, o_kind = text_col rt x7,
      o_fee_percent = real_col f\<rparr>"
  let ?d' = "\<lparr>rows = rows d @ [?r], seq = ?i\<rparr>"
  have full: "max_rowid d \<noteq> 2 ^ 63 - 1"
    using assms(3) by simp
  have save: "save_offer rt d (PDict p) raw_text now = Inr (?d', ?i)"
    using full
    by (simp add: save_offer_def b1 b2 b3 b4 b5 b6 b7 sf Let_def)
  have "0 \<le> max_rowid d"
    using assms(2) seq_le_max_rowid [of d] by simp
  then have i64: "int64 ?i"
    using assms(3) by (simp add: int64_def)
  have fresh: "\<forall>x \<in> set (rows d). \<not> o_id x = ?i"
    using o_id_le_max_rowid [of _ d] by fastforce
  have "find (\<lambda>r. o_id r = ?i) (rows d @ [?r]) = Some ?r"
    using fresh by (intro find_append_fresh) simp_all
  then have get: "get_offer_by_id ?d' ?i =
       Inr (Some [PInt ?i, PStr raw_text,
                  dict_get p ''country'', dict_get p ''method'', dict_get p ''fee'',
                  dict_get p ''rate'', dict_get p ''limits'', dict_get p ''conditions'',
                  PStr ''new'', PStr now, PStr now,
                  dict_get p ''kind'', dict_get p ''fee_percent''])"
    using i64 by (simp add: get_offer_by_id_def full_tuple_def f1 f2 f3 f4 f5 f6 f7 ff)
  from save get show ?thesis by blast
qed

theorem create_then_get_by_id_witness:
  "typed_offer scenario_offer \<and> 0 \<le> seq empty_db \<and> max_rowid empty_db < 2 ^ 63 - 1 \<and>
   (\<exists>d'. save_offer rt0 empty_db (PDict scenario_offer) ''RU SBP 1.8% 98'' ''2024-05-01T10:00:00''
            = Inr (d', 1) \<and>
      get_offer_by_id d' 1 =
        Inr (Some [PInt 1, PStr ''RU SBP 1.8% 98'', PStr ''RU'', PStr ''SBP'', PStr ''1.8%'',
                   PNone, PNone, PNone, PStr ''new'', PStr ''2024-05-01T10:00:00'',
                   PStr ''2024-05-01T10:00:00'', PStr ''channel'', PFloat (Fin (18 / 10))]))"
proof -
  have h1: "typed_offer scenario_offer"
    by (simp add: typed_offer_def scenario_offer_def dict_get_def)
  have h2: "0 \<le> seq empty_db"
    by (simp add: empty_db_def)
  have h3: "max_rowid empty_db < 2 ^ 63 - 1"
    by (simp add: empty_db_def max_rowid_def)
  have m: "max_rowid empty_db + 1 = 1"
    by (simp add: empty_db_def max_rowid_def)
  have g: "dict_get scenario_offer ''country'' = PStr ''RU''"
    "dict_get scenario_offer ''method'' = PStr ''SBP''"
    "dict_get scenario_offer ''fee'' = PStr ''1.8%''"
    "dict_get scenario_offer ''rate'' = PNone"
    "dict_get scenario_offer ''limits'' = PNone"
    "dict_get scenario_offer ''conditions'' = PNone"
    "dict_get scenario_offer ''kind'' = PStr ''channel''"
    "dict_get scenario_offer ''fee_percent'' = PFloat (Fin (18 / 10))"
    by (simp_all add: scenario_offer_def dict_get_def)
  show ?thesis
    using h1 h2 h3
      create_then_get_by_id [OF h1 h2 h3, of rt0 "''RU SBP 1.8% 98''" "''2024-05-01T10:00:00''"]
    unfolding m g by blast
qed

section \<open>\<open>safe_float\<close> does not catch \<open>OverflowError\<close>\<close>

lemma py_float_huge: "py_float (PInt huge_int) = Inl OverflowError"
  by (simp add: dbl_overflow_def huge_int_def)

lemma safe_float_huge: "safe_float (PInt huge_int) = Inl OverflowError"
  by (simp add: safe_float_def py_float_huge del: py_float.simps)

text \<open>
  What \<open>safe_float\<close> does absorb: a \<open>fee_percent\<close> that is \<^verbatim>\<open>None\<close>, or on which \<^verbatim>\<open>float()\<close> raises
  \<open>TypeError\<close> or \<open>ValueError\<close>, is written as if the payload had no \<open>fee_percent\<close>.
\<close>

lemma safe_float_absorbs:
  "v = PNone \<or> py_float v = Inl TypeError \<or> py_float v = Inl ValueError \<Longrightarrow>
   safe_float v = Inr None"
  by (auto simp: safe_float_def)

lemma dict_get_without:
  "dict_get (filter (\<lambda>kv. fst kv \<noteq> x) p) k = (if k = x then PNone else dict_get p k)"
  by (induction p) (auto simp: dict_get_def)

lemma save_offer_ignores_unparsable_fee_percent:
  assumes "dict_get p ''fee_percent'' = v"
    and "v = PNone \<or> py_float v = Inl TypeError \<or> py_float v = Inl ValueError"
  shows "save_offer rt d (PDict p) raw_text now =
     save_offer rt d (PDict (filter (\<lambda>kv. fst kv \<noteq> ''fee_percent'') p)) raw_text now"
proof -
  have "safe_float (dict_get p ''fee_percent'') = Inr None"
    using assms safe_float_absorbs by simp
  moreover have "safe_float PNone = Inr None"
    by (simp add: safe_float_def)
  ultimately show ?thesis
    by (simp add: save_offer_def dict_get_without)
qed

text \<open>
  C8 on the code: a \<open>fee_percent\<close> that is a whole number beyond the range of the doubles
  makes \<^verbatim>\<open>float()\<close> raise \<open>OverflowError\<close>, which \<open>safe_float\<close> does not catch, so \<open>save_offer\<close>
  raises and no record is written.
\<close>

theorem save_offer_raises_on_huge_fee_percent:
  "save_offer rt d (PDict [(''fee_percent'', PInt huge_int)]) raw_text now = Inl OverflowError"
  by (simp add: save_offer_def dict_get_def safe_float_huge)

section \<open>\<open>handle_text\<close> turns every exception into a reply\<close>

text \<open>
  C4.  \<open>handle_text\<close> always returns: no exception leaves it.  When the interpreter raises
  \<open>exc\<close>, and when \<open>save_offer\<close> or \<open>search_offers\<close> raises \<open>exc\<close>, the replies are the notice
  and the error message carrying \<open>exc\<close>, and the database is as it was.
\<close>

theorem handle_text_never_propagates:
  "(\<exists>d' replies. handle_text rt call d txt now = Inr (d', replies)) \<and>
   (interpret_text call (or_empty_str txt) = Inl exc \<longrightarrow>
      handle_text rt call d txt now = Inr (d, [Thinking, ProcessingError exc])) \<and>
   (interpret_text call (or_empty_str txt) = Inr (PDict data) \<and>
    dict_get data ''mode'' = PStr ''offer'' \<and>
    save_offer rt d (or_empty_dict (dict_get data ''offer'')) (or_empty_str txt) now = Inl exc \<longrightarrow>
      handle_text rt call d txt now = Inr (d, [Thinking, ProcessingError exc])) \<and>
   (interpret_text call (or_empty_str txt) = Inr (PDict data) \<and>
    dict_get data ''mode'' = PStr ''search'' \<and>
    search_offers rt d (or_empty_dict (dict_get data ''search'')) 20 = Inl exc \<longrightarrow>
      handle_text rt call d txt now = Inr (d, [Thinking, ProcessingError exc]))"
proof -
  have 1: "\<exists>d' replies. handle_text rt call d txt now = Inr (d', replies)"
    unfolding handle_text_def Let_def try_except_def and_then_def
    by (auto split: sum.splits prod.splits)
  have 2: "handle_text rt call d txt now = Inr (d, [Thinking, ProcessingError exc])"
    if "interpret_text call (or_empty_str txt) = Inl exc"
    using that by (simp add: handle_text_def)
  have 3: "handle_text rt call d txt now = Inr (d, [Thinking, ProcessingError exc])"
    if "interpret_text call (or_empty_str txt) = Inr (PDict data)"
      and "dict_get data ''mode'' = PStr ''offer''"
      and "save_offer rt d (or_empty_dict (dict_get data ''offer'')) (or_empty_str txt) now = Inl exc"
    using that by (simp add: handle_text_def handle_offer_mode_def)
  have 4: "handle_text rt call d txt now = Inr (d, [Thinking, ProcessingError exc])"
    if "interpret_text call (or_empty_str txt) = Inr (PDict data)"
      and "dict_get data ''mode'' = PStr ''search''"
      and "search_offers rt d (or_empty_dict (dict_get data ''search'')) 20 = Inl exc"
    using that by (simp add: handle_text_def handle_search_mode_def)
  show ?thesis
    using 1 2 3 4 by blast
qed

theorem handle_text_never_propagates_witness:
  "handle_text rt0 (answers Malformed) empty_db (Some ''hello'') ''2024-05-01T10:00:00'' =
     Inr (empty_db, [Thinking, ProcessingError (RuntimeError JSONDecodeError)]) \<and>
   handle_text rt0
     (answers (Wellformed (PDict [(''mode'', PStr ''offer''),
                                  (''offer'', PDict [(''fee_percent'', PInt huge_int)])])))
     empty_db (Some ''RU SBP'') ''2024-05-01T10:00:00'' =
     Inr (empty_db, [Thinking, ProcessingError OverflowError]) \<and>
   handle_text rt0
     (answers (Wellformed (PDict [(''mode'', PStr ''search''),
                                  (''search'', PDict [(''min_fee_percent'', PStr ''cheap'')])])))
     empty_db (Some ''cheap offers'') ''2024-05-01T10:00:00'' =
     Inr (empty_db, [Thinking, ProcessingError ValueError])"
proof -
  let ?offer = "[(''mode'', PStr ''offer''), (''offer'', PDict [(''fee_percent'', PInt huge_int)])]"
  let ?search = "[(''mode'', PStr ''search''),
                  (''search'', PDict [(''min_fee_percent'', PStr ''cheap'')])]"
  have a: "interpret_text (answers Malformed) (or_empty_str (Some ''hello'')) =
      Inl (RuntimeError JSONDecodeError)"
    by (simp add: interpret_text_def answers_def)
  have b: "interpret_text (answers (Wellformed (PDict ?offer))) (or_empty_str (Some ''RU SBP'')) =
        Inr (PDict ?offer) \<and>
      dict_get ?offer ''mode'' = PStr ''offer'' \<and>
      save_offer rt0 empty_db (or_empty_dict (dict_get ?offer ''offer''))
        (or_empty_str (Some ''RU SBP'')) ''2024-05-01T10:00:00'' = Inl OverflowError"
    by (simp add: interpret_text_def answers_def dict_get_def or_empty_dict_def save_offer_def
        safe_float_huge)
  have c: "interpret_text (answers (Wellformed (PDict ?search)))
        (or_empty_str (Some ''cheap offers'')) = Inr (PDict ?search) \<and>
      dict_get ?search ''mode'' = PStr ''search'' \<and>
      search_offers rt0 empty_db (or_empty_dict (dict_get ?search ''search'')) 20 = Inl ValueError"
    by (simp add: interpret_text_def answers_def dict_get_def or_empty_dict_def search_offers_def
        search_conditions_def like_cond_def eq_cond_def fee_cond_def float_of_str_cheap)
  show ?thesis
    using a b c
      handle_text_never_propagates [of rt0 "answers Malformed" empty_db "Some ''hello''"
        "''2024-05-01T10:00:00''" "RuntimeError JSONDecodeError"]
      handle_text_never_propagates [of rt0 "answers (Wellformed (PDict ?offer))" empty_db
        "Some ''RU SBP''" "''2024-05-01T10:00:00''" OverflowError ?offer]
      handle_text_never_propagates [of rt0 "answers (Wellformed (PDict ?search))" empty_db
        "Some ''cheap offers''" "''2024-05-01T10:00:00''" ValueError ?search]
    by blast
qed

section \<open>Facts about \<open>search_offers\<close>\<close>

lemma and_then_eq_Inr: "and_then m f = Inr y \<longleftrightarrow> (\<exists>x. m = Inr x \<and> f x = Inr y)"
  by (cases m) simp_all

lemma search_conditions_dict:
  "search_conditions (PDict f) =
     and_then (like_cond CountryLike (dict_get f ''country'')) (\<lambda>c1.
     and_then (like_cond MethodLike (dict_get f ''method'')) (\<lambda>c2.
     and_then (fee_cond FeeGe (dict_get f ''min_fee_percent'')) (\<lambda>c5.
     and_then (fee_cond FeeLe (dict_get f ''max_fee_percent'')) (\<lambda>c6.
       Inr (c1 @ c2 @ eq_cond StatusEq (dict_get f ''status'') @
            eq_cond KindEq (dict_get f ''kind'') @ c5 @ c6)))))"
  by (simp add: search_conditions_def)

lemma map_sql_limit: "map g (sql_limit n xs) = sql_limit n (map g xs)"
  by (simp add: sql_limit_def take_map)

lemma without_created_at_list_tuple: "without_created_at (list_tuple r) = search_tuple r"
  by (simp add: without_created_at_def list_tuple_def search_tuple_def)

lemma select_where_Nil: "select_where rt [] rs = rs"
  by (simp add: select_where_def)

lemma fees_db_desc:
  "order_by_id_desc (rows fees_db) =
     [fee_row 3 None, fee_row 2 (Some (Fin 12)), fee_row 1 (Some (Fin 5))]"
  by (simp add: order_by_id_desc_def fees_db_def fee_row_def)

lemmas text_eval =
  c_str_def ascii_lower_char_def py_lower_char_def Let_def sql_like_def sql_lower_def
  char_of_def bit_0

section \<open>A search without criteria lists the most recent offers\<close>

text \<open>
  C7.  With a filter that sets none of the six criteria, \<open>search_offers\<close> returns what
  \<open>list_last_offers\<close> returns for the same limit: the same rows in the same order, largest
  id first, each without the column \<open>created_at\<close> that only \<open>list_last_offers\<close> selects; and
  it raises what \<open>list_last_offers\<close> raises.
\<close>

theorem search_without_criteria_is_list_recent:
  assumes "criteria_set f = [False, False, False, False, False, False]"
  shows "search_offers rt d (PDict f) limit =
     map_sum id (map without_created_at) (list_last_offers d limit)"
proof -
  from assms have cs: "search_conditions (PDict f) = Inr []"
    by (simp add: criteria_set_def search_conditions_dict like_cond_def eq_cond_def fee_cond_def)
  show ?thesis
  proof (cases "int64 limit")
    case True
    then show ?thesis
      by (simp add: search_offers_def cs search_params_def list_last_offers_def select_where_Nil
          map_sql_limit without_created_at_list_tuple cong: map_cong)
  next
    case False
    then show ?thesis
      by (simp add: search_offers_def cs search_params_def list_last_offers_def)
  qed
qed

theorem search_without_criteria_is_list_recent_witness:
  "criteria_set [] = [False, False, False, False, False, False] \<and>
   list_last_offers fees_db 2 =
     Inr [list_tuple (fee_row 3 None), list_tuple (fee_row 2 (Some (Fin 12)))] \<and>
   search_offers rt0 fees_db (PDict []) 2 =
     Inr [search_tuple (fee_row 3 None), search_tuple (fee_row 2 (Some (Fin 12)))]"
proof -
  have h: "criteria_set [] = [False, False, False, False, False, False]"
    by (simp add: criteria_set_def dict_get_def)
  have l: "list_last_offers fees_db 2 =
     Inr [list_tuple (fee_row 3 None), list_tuple (fee_row 2 (Some (Fin 12)))]"
    by (simp add: list_last_offers_def int64_def fees_db_desc sql_limit_def)
  show ?thesis
    using h l search_without_criteria_is_list_recent [OF h, of rt0 fees_db 2]
    by (simp add: without_created_at_list_tuple)
qed

section \<open>Bounds on the fee\<close>







section \<open>The text of the statement does not depend on the values of the filter\<close>

lemma like_cond_sql:
  assumes "like_cond mk v1 = Inr c1" and "like_cond mk v2 = Inr c2"
    and "py_truthy v1 = py_truthy v2" and "\<And>p q. cond_sql (mk p) = cond_sql (mk q)"
  shows "map cond_sql c1 = map cond_sql c2"
  using assms by (auto simp: like_cond_def and_then_eq_Inr split: if_splits)

lemma eq_cond_sql:
  assumes "py_truthy v1 = py_truthy v2" and "\<And>p q. cond_sql (mk p) = cond_sql (mk q)"
  shows "map cond_sql (eq_cond mk v1) = map cond_sql (eq_cond mk v2)"
  using assms by (simp add: eq_cond_def)

lemma fee_cond_sql:
  assumes "fee_cond mk v1 = Inr c1" and "fee_cond mk v2 = Inr c2"
    and "(v1 \<noteq> PNone) = (v2 \<noteq> PNone)" and "\<And>p q. cond_sql (mk p) = cond_sql (mk q)"
  shows "map cond_sql c1 = map cond_sql c2"
  using assms by (auto simp: fee_cond_def and_then_eq_Inr split: if_splits)

lemma search_conditions_sql:
  assumes "search_conditions (PDict f1) = Inr cs1" and "search_conditions (PDict f2) = Inr cs2"
    and "criteria_set f1 = criteria_set f2"
  shows "map cond_sql cs1 = map cond_sql cs2"
proof -
  from assms(1) obtain a1 a2 a5 a6 where
    a: "like_cond CountryLike (dict_get f1 ''country'') = Inr a1"
       "like_cond MethodLike (dict_get f1 ''method'') = Inr a2"
       "fee_cond FeeGe (dict_get f1 ''min_fee_percent'') = Inr a5"
       "fee_cond FeeLe (dict_get f1 ''max_fee_percent'') = Inr a6"
    and cs1: "cs1 = a1 @ a2 @ eq_cond StatusEq (dict_get f1 ''status'') @
                eq_cond KindEq (dict_get f1 ''kind'') @ a5 @ a6"
    unfolding search_conditions_dict and_then_eq_Inr by auto
  from assms(2) obtain b1 b2 b5 b6 where
    b: "like_cond CountryLike (dict_get f2 ''country'') = Inr b1"
       "like_cond MethodLike (dict_get f2 ''method'') = Inr b2"
       "fee_cond FeeGe (dict_get f2 ''min_fee_percent'') = Inr b5"
       "fee_cond FeeLe (dict_get f2 ''max_fee_percent'') = Inr b6"
    and cs2: "cs2 = b1 @ b2 @ eq_cond StatusEq (dict_get f2 ''status'') @
                eq_cond KindEq (dict_get f2 ''kind'') @ b5 @ b6"
    unfolding search_conditions_dict and_then_eq_Inr by auto
  from assms(3) have c:
    "py_truthy (dict_get f1 ''country'') = py_truthy (dict_get f2 ''country'')"
    "py_truthy (dict_get f1 ''method'') = py_truthy (dict_get f2 ''method'')"
    "py_truthy (dict_get f1 ''status'') = py_truthy (dict_get f2 ''status'')"
    "py_truthy (dict_get f1 ''kind'') = py_truthy (dict_get f2 ''kind'')"
    "(dict_get f1 ''min_fee_percent'' \<noteq> PNone) = (dict_get f2 ''min_fee_percent'' \<noteq> PNone)"
    "(dict_get f1 ''max_fee_percent'' \<noteq> PNone) = (dict_get f2 ''max_fee_percent'' \<noteq> PNone)"
    by (simp_all add: criteria_set_def)
  have "map cond_sql a1 = map cond_sql b1"
    by (rule like_cond_sql [OF a(1) b(1) c(1)]) simp
  moreover have "map cond_sql a2 = map cond_sql b2"
    by (rule like_cond_sql [OF a(2) b(2) c(2)]) simp
  moreover have "map cond_sql (eq_cond StatusEq (dict_get f1 ''status'')) =
      map cond_sql (eq_cond StatusEq (dict_get f2 ''status''))"
    by (rule eq_cond_sql [OF c(3)]) simp
  moreover have "map cond_sql (eq_cond KindEq (dict_get f1 ''kind'')) =
      map cond_sql (eq_cond KindEq (dict_get f2 ''kind''))"
    by (rule eq_cond_sql [OF c(4)]) simp
  moreover have "map cond_sql a5 = map cond_sql b5"
    by (rule fee_cond_sql [OF a(3) b(3) c(5)]) simp
  moreover have "map cond_sql a6 = map cond_sql b6"
    by (rule fee_cond_sql [OF a(4) b(4) c(6)]) simp
  ultimately show ?thesis
    by (simp add: cs1 cs2)
qed

lemma count_cond_sql: "count_list (cond_sql c) CHR ''?'' = 1"
  by (cases c) simp_all

lemma count_join_cond_sql:
  "cs \<noteq> [] \<Longrightarrow> count_list (join '' AND '' (map cond_sql cs)) CHR ''?'' = length cs"
proof (induction cs rule: induct_list012)
  case 1
  then show ?case by simp
next
  case (2 c)
  show ?case by (simp add: count_cond_sql)
next
  case (3 c c' cs)
  then show ?case by (simp add: count_cond_sql)
qed

lemma count_search_sql: "count_list (search_sql cs) CHR ''?'' = length (search_params cs limit)"
  by (simp add: search_sql_def search_params_def where_clause_def count_join_cond_sql)

text \<open>
  C2.  Two filters that set the same criteria give the same text of the statement,
  whatever the values of the criteria and the limits; the text has one \<open>?\<close> for each
  parameter handed to \<^verbatim>\<open>db.execute\<close>, so the values travel as bound parameters only.
\<close>

theorem search_query_text_depends_on_criteria_only:
  assumes "search_query (PDict f1) limit1 = Inr (q1, ps1)"
    and "search_query (PDict f2) limit2 = Inr (q2, ps2)"
    and "criteria_set f1 = criteria_set f2"
  shows "q1 = q2 \<and> count_list q1 CHR ''?'' = length ps1 \<and> length ps1 = length ps2"
proof -
  from assms(1) obtain cs1 where cs1: "search_conditions (PDict f1) = Inr cs1"
    and q1: "q1 = search_sql cs1" and ps1: "ps1 = search_params cs1 limit1"
    by (auto simp: search_query_def and_then_eq_Inr)
  from assms(2) obtain cs2 where cs2: "search_conditions (PDict f2) = Inr cs2"
    and q2: "q2 = search_sql cs2" and ps2: "ps2 = search_params cs2 limit2"
    by (auto simp: search_query_def and_then_eq_Inr)
  have m: "map cond_sql cs1 = map cond_sql cs2"
    by (rule search_conditions_sql [OF cs1 cs2 assms(3)])
  then have len: "length cs1 = length cs2"
    by (rule map_eq_imp_length_eq)
  then have "(cs1 = []) = (cs2 = [])"
    by auto
  with m have "q1 = q2"
    by (simp add: q1 q2 search_sql_def where_clause_def)
  moreover have "count_list q1 CHR ''?'' = length ps1"
    by (simp add: q1 ps1 count_search_sql)
  moreover have "length ps1 = length ps2"
    by (simp add: ps1 ps2 search_params_def len)
  ultimately show ?thesis by blast
qed

theorem search_query_text_depends_on_criteria_only_witness:
  "search_query (PDict [(''country'', PStr ''india''), (''max_fee_percent'', PFloat (Fin 11))]) 20 =
     Inr (search_text_country_max, [PStr ''%india%'', PFloat (Fin 11), PInt 20]) \<and>
   search_query (PDict [(''country'', PStr ''x OR 1=1''), (''max_fee_percent'', PInt 5)]) 20 =
     Inr (search_text_country_max, [PStr ''%x or 1=1%'', PFloat (Fin 5), PInt 20]) \<and>
   count_list search_text_country_max CHR ''?'' = 3"
proof -
  let ?f1 = "[(''country'', PStr ''india''), (''max_fee_percent'', PFloat (Fin 11))]"
  let ?f2 = "[(''country'', PStr ''x OR 1=1''), (''max_fee_percent'', PInt 5)]"
  have q1: "search_query (PDict ?f1) 20 =
      Inr (search_text_country_max, [PStr ''%india%'', PFloat (Fin 11), PInt 20])"
    by (simp add: search_query_def search_conditions_dict like_cond_def eq_cond_def fee_cond_def
        dict_get_def search_sql_def search_params_def where_clause_def
        search_text_country_max_def text_eval)
  have q2: "search_query (PDict ?f2) 20 =
      Inr (search_text_country_max, [PStr ''%x or 1=1%'', PFloat (Fin 5), PInt 20])"
    by (simp add: search_query_def search_conditions_dict like_cond_def eq_cond_def fee_cond_def
        dict_get_def search_sql_def search_params_def where_clause_def
        search_text_country_max_def text_eval dbl_overflow_def)
  have c: "criteria_set ?f1 = criteria_set ?f2"
    by (simp add: criteria_set_def dict_get_def)
  show ?thesis
    using q1 q2 search_query_text_depends_on_criteria_only [OF q1 q2 c] by simp
qed

section \<open>Search by country or method\<close>

lemma of_char_py_lower_char:
  "(of_char (py_lower_char c) :: nat) =
     (if (65 \<le> (of_char c :: nat) \<and> (of_char c :: nat) \<le> 90) \<or>
         (192 \<le> (of_char c :: nat) \<and> (of_char c :: nat) \<le> 214) \<or>
         (216 \<le> (of_char c :: nat) \<and> (of_char c :: nat) \<le> 222)
      then of_char c + 32 else of_char c)"
  by (simp add: py_lower_char_def Let_def)

lemma of_char_ascii_lower_char:
  "(of_char (ascii_lower_char c) :: nat) =
     (if 65 \<le> (of_char c :: nat) \<and> (of_char c :: nat) \<le> 90 then of_char c + 32 else of_char c)"
  by (simp add: ascii_lower_char_def)

lemma char_eq_iff_nat: "(c = d) = ((of_char c :: nat) = of_char d)"
  by simp

lemma ascii_lower_py_lower [simp]: "ascii_lower_char (py_lower_char c) = py_lower_char c"
  unfolding char_eq_iff_nat [of "ascii_lower_char (py_lower_char c)"]
  by (simp add: of_char_ascii_lower_char of_char_py_lower_char)

lemma ascii_lower_idem [simp]: "ascii_lower_char (ascii_lower_char c) = ascii_lower_char c"
  unfolding char_eq_iff_nat [of "ascii_lower_char (ascii_lower_char c)"]
  by (simp add: of_char_ascii_lower_char)














end
